theory Spec2Isabelle
  imports Main "HOL-Library.Sublist"
begin

section \<open>Request values\<close>

text \<open>
  The body of a POST to /api/obfuscate is a parsed JSON object. A field that is absent
  is \<open>undefined\<close> in the handler, modelled as \<open>None\<close>. The payload of a number is kept
  as an integer: the handler looks at a number only through its truthiness and its
  \<open>typeof\<close>, and rejects it either way.
\<close>

datatype json =
    JNull
  | JBool bool
  | JNum int
  | JStr string
  | JArr "json list"
  | JObj "(string \<times> json) list"

record request_body =
  code :: "json option"
  preset :: "json option"

text \<open>What the handler answers with: \<open>res.json\<close> with status 200, or a status and an error text.\<close>

datatype response =
    JsonOk (obfuscatedCode: string) (preset_used: string)
  | JsonError (status: nat) (error_text: string)

text \<open>A thrown JavaScript error, as far as the handler reads it: \<open>error.stderr\<close> (set by
  \<open>exec\<close> only) and \<open>error.message\<close>.\<close>

datatype js_error = JsError (stderr: "string option") (message: string)

text \<open>JavaScript's \<open>a || b\<close> on a string that may be \<open>undefined\<close>: the empty string is falsy.\<close>

definition truthy :: "string option \<Rightarrow> bool" where
  "truthy a = (case a of None \<Rightarrow> False | Some s \<Rightarrow> s \<noteq> [])"

definition or_js :: "string option \<Rightarrow> string \<Rightarrow> string" where
  "or_js a b = (case a of None \<Rightarrow> b | Some s \<Rightarrow> if s = [] then b else s)"

section \<open>Tiers and presets (routes.ts, lines 14-22 and 87-89)\<close>

definition VALID_PRESETS :: "string list" where
  "VALID_PRESETS = [''Weak'', ''Medium'', ''Strong'', ''Maximum'']"

definition PRESET_MAP :: "string \<rightharpoonup> string" where
  "PRESET_MAP = map_of
     [(''Weak'', ''Weak''),
      (''Medium'', ''Medium''),
      (''Strong'', ''Strong''),
      (''Maximum'', ''Strong'')]"

text \<open>\<open>Array.prototype.includes\<close> compares without coercion: only a string equals a string.\<close>

definition includes_js :: "string list \<Rightarrow> json \<Rightarrow> bool" where
  "includes_js xs v = (case v of JStr s \<Rightarrow> List.member xs s | _ \<Rightarrow> False)"

text \<open>The destructuring default \<open>preset = "Strong"\<close> applies to \<open>undefined\<close> only.\<close>

definition preset_default :: "json option \<Rightarrow> json" where
  "preset_default p = (case p of None \<Rightarrow> JStr ''Strong'' | Some v \<Rightarrow> v)"

definition validatedPreset :: "json \<Rightarrow> string" where
  "validatedPreset p =
     (case p of
        JStr s \<Rightarrow> if includes_js VALID_PRESETS p then s else ''Strong''
      | _ \<Rightarrow> ''Strong'')"

text \<open>\<open>PRESET_MAP[validatedPreset] || "Strong"\<close>, line 109.\<close>

definition actualPreset :: "string \<Rightarrow> string" where
  "actualPreset tier = or_js (PRESET_MAP tier) ''Strong''"

section \<open>The process state and its surroundings\<close>

text \<open>
  The state the pipeline reads and writes: the regular files by path, whether the temp
  directory exists, and the module variable \<open>cachedLuaPath\<close> (line 61).
\<close>

record world =
  files :: "string \<rightharpoonup> string"
  tempDir :: bool
  cachedLuaPath :: "string option"

text \<open>
  Everything the code cannot decide by itself is a field of the surroundings: the working
  directory, which version probes exit cleanly, what the store search prints (\<open>None\<close> when
  that \<open>exec\<close> rejects), the faults of the file-system calls (\<open>None\<close> for no fault), and
  the external tool, which receives the command line and the files and leaves an error
  (non-zero exit, timeout, buffer overflow) or nothing, and the files as it changed them.
\<close>

record env =
  cwd :: string
  probe_ok :: "string \<Rightarrow> bool"
  search_result :: "string option"
  mkdir_fault :: "js_error option"
  write_fault :: "string \<Rightarrow> string \<Rightarrow> js_error option"
  read_fault :: "string \<Rightarrow> js_error option"
  unlink_fault :: "string \<Rightarrow> js_error option"
  tool :: "string \<Rightarrow> (string \<rightharpoonup> string) \<Rightarrow> js_error option \<times> (string \<rightharpoonup> string)"

text \<open>
  The calls a run makes, in program order. \<open>EvProbe p\<close> is the \<open>exec\<close> of \<open>p -v\<close>,
  \<open>EvSearch\<close> the \<open>exec\<close> of the store search, \<open>EvExec c\<close> the \<open>exec\<close> of the tool's
  command line \<open>c\<close>. \<open>EvNormalized\<close> and \<open>EvAllocated\<close> mark the two pure steps, the
  computation of \<open>validatedPreset\<close> (lines 87-89) and of the two paths (lines 102-104).
\<close>

datatype event =
    EvNormalized string
  | EvProbe string
  | EvSearch
  | EvAllocated string string
  | EvWriteFile string
  | EvExec string
  | EvReadFile string
  | EvUnlink string

section \<open>Paths and the command line (lines 11-12, 103-104, 110)\<close>

text \<open>\<open>path.join\<close> on an absolute, normalised first part and a plain file name.\<close>

definition join_path :: "string \<Rightarrow> string \<Rightarrow> string" where
  "join_path a b = (if a \<noteq> [] \<and> last a = CHR ''/'' then a @ b else a @ ''/'' @ b)"

definition TEMP_DIR :: "env \<Rightarrow> string" where
  "TEMP_DIR e = join_path (cwd e) ''temp''"

definition TOOL_DIR :: "env \<Rightarrow> string" where
  "TOOL_DIR e = join_path (cwd e) ''prometheus-obfuscator''"

definition PROMETHEUS_CLI :: "env \<Rightarrow> string" where
  "PROMETHEUS_CLI e = join_path (TOOL_DIR e) ''cli.lua''"

definition inputFile :: "env \<Rightarrow> string \<Rightarrow> string" where
  "inputFile e fileId = join_path (TEMP_DIR e) (''input_'' @ fileId @ ''.lua'')"

definition outputFile :: "env \<Rightarrow> string \<Rightarrow> string" where
  "outputFile e fileId = join_path (TEMP_DIR e) (''input_'' @ fileId @ ''.obfuscated.lua'')"

definition dq :: string where
  "dq = [CHR 0x22]"

text \<open>A template literal prints \<open>null\<close> for an empty cache slot.\<close>

definition show_path :: "string option \<Rightarrow> string" where
  "show_path c = (case c of None \<Rightarrow> ''null'' | Some p \<Rightarrow> p)"

definition command :: "env \<Rightarrow> string option \<Rightarrow> string \<Rightarrow> string \<Rightarrow> string" where
  "command e lua tool_preset inp =
     ''cd '' @ dq @ TOOL_DIR e @ dq @ '' && '' @ dq @ show_path lua @ dq @ '' '' @
     dq @ PROMETHEUS_CLI e @ dq @ '' --preset '' @ tool_preset @ '' '' @ dq @ inp @ dq"

section \<open>findLuaPath (lines 24-51)\<close>

definition possiblePaths :: "string list" where
  "possiblePaths =
     [''lua'',
      ''lua5.1'',
      ''/nix/store/mqbhz05llkddfb5wni0m48kw22ixxps4-lua-5.1.5/bin/lua'']"

definition lua_not_found :: js_error where
  "lua_not_found =
     JsError None ''Lua interpreter not found. Please ensure Lua 5.1 is installed.''"

text \<open>The \<open>for\<close> loop: the first candidate whose probe does not throw is returned.\<close>

fun probe_loop :: "env \<Rightarrow> string list \<Rightarrow> string option \<times> event list" where
  "probe_loop e [] = (None, [])"
| "probe_loop e (p # ps) =
     (if probe_ok e p then (Some p, [EvProbe p])
      else (case probe_loop e ps of (r, evs) \<Rightarrow> (r, EvProbe p # evs)))"

text \<open>\<open>String.prototype.trim\<close> on ASCII white space.\<close>

definition is_space :: "char \<Rightarrow> bool" where
  "is_space c = (c = CHR '' '' \<or> c = CHR 0x09 \<or> c = CHR 0x0A \<or> c = CHR 0x0B \<or>
                 c = CHR 0x0C \<or> c = CHR 0x0D)"

definition trim :: "string \<Rightarrow> string" where
  "trim s = rev (dropWhile is_space (rev (dropWhile is_space s)))"

definition findLuaPath :: "env \<Rightarrow> (js_error + string) \<times> event list" where
  "findLuaPath e =
     (case probe_loop e possiblePaths of
        (Some p, evs) \<Rightarrow> (Inr p, evs)
      | (None, evs) \<Rightarrow>
          (case search_result e of
             None \<Rightarrow> (Inl lua_not_found, evs @ [EvSearch])
           | Some stdout \<Rightarrow>
               if trim stdout \<noteq> [] then (Inr (trim stdout), evs @ [EvSearch])
               else (Inl lua_not_found, evs @ [EvSearch])))"

section \<open>File-system calls\<close>

definition enoent :: "string \<Rightarrow> string \<Rightarrow> js_error" where
  "enoent syscall p =
     JsError None (''ENOENT: no such file or directory, '' @ syscall @ '' '' @
                   [CHR 0x27] @ p @ [CHR 0x27])"

text \<open>\<open>mkdir(TEMP_DIR, {recursive: true})\<close>: an existing directory is no error.\<close>

definition mkdir_recursive :: "env \<Rightarrow> world \<Rightarrow> js_error + world" where
  "mkdir_recursive e w =
     (if tempDir w then Inr w
      else (case mkdir_fault e of
              Some err \<Rightarrow> Inl err
            | None \<Rightarrow> Inr (w\<lparr>tempDir := True\<rparr>)))"

text \<open>A write needs the directory; a write that fails is taken to leave no file.\<close>

definition writeFile :: "env \<Rightarrow> string \<Rightarrow> string \<Rightarrow> world \<Rightarrow> js_error + world" where
  "writeFile e p content w =
     (if \<not> tempDir w then Inl (enoent ''open'' p)
      else (case write_fault e p content of
              Some err \<Rightarrow> Inl err
            | None \<Rightarrow> Inr (w\<lparr>files := (files w)(p \<mapsto> content)\<rparr>)))"

definition readFile :: "env \<Rightarrow> string \<Rightarrow> world \<Rightarrow> js_error + string" where
  "readFile e p w =
     (case files w p of
        None \<Rightarrow> Inl (enoent ''open'' p)
      | Some content \<Rightarrow>
          (case read_fault e p of Some err \<Rightarrow> Inl err | None \<Rightarrow> Inr content))"

definition unlink :: "env \<Rightarrow> string \<Rightarrow> world \<Rightarrow> js_error + world" where
  "unlink e p w =
     (case files w p of
        None \<Rightarrow> Inl (enoent ''unlink'' p)
      | Some content \<Rightarrow>
          (case unlink_fault e p of
             Some err \<Rightarrow> Inl err
           | None \<Rightarrow> Inr (w\<lparr>files := (files w)(p := None)\<rparr>)))"

definition execTool :: "env \<Rightarrow> string \<Rightarrow> world \<Rightarrow> js_error option \<times> world" where
  "execTool e cmd w =
     (case tool e cmd (files w) of (r, fs) \<Rightarrow> (r, w\<lparr>files := fs\<rparr>))"

section \<open>ensureTempDir (lines 53-59)\<close>

text \<open>The \<open>catch\<close> has no binding and no test: whatever \<open>mkdir\<close> throws is dropped.\<close>

definition ensureTempDir :: "env \<Rightarrow> world \<Rightarrow> js_error + world" where
  "ensureTempDir e w =
     (case mkdir_recursive e w of
        Inl err \<Rightarrow> Inr w
      | Inr w' \<Rightarrow> Inr w')"

section \<open>The handler of POST /api/obfuscate (lines 77-147)\<close>

text \<open>\<open>!code\<close>: \<open>undefined\<close>, \<open>null\<close>, \<open>false\<close>, \<open>0\<close> and the empty string are falsy.\<close>

definition falsy :: "json option \<Rightarrow> bool" where
  "falsy c =
     (case c of
        None \<Rightarrow> True
      | Some JNull \<Rightarrow> True
      | Some (JBool b) \<Rightarrow> \<not> b
      | Some (JNum n) \<Rightarrow> n = 0
      | Some (JStr s) \<Rightarrow> s = []
      | Some _ \<Rightarrow> False)"

definition typeof_string :: "json option \<Rightarrow> bool" where
  "typeof_string c = (case c of Some (JStr s) \<Rightarrow> True | _ \<Rightarrow> False)"

text \<open>The guard of line 80; \<open>source_text\<close> reads the string that passed it.\<close>

definition rejected :: "json option \<Rightarrow> bool" where
  "rejected c = (falsy c \<or> \<not> typeof_string c)"

definition source_text :: "json option \<Rightarrow> string" where
  "source_text c = (case c of Some (JStr s) \<Rightarrow> s | _ \<Rightarrow> [])"

text \<open>
  The clean-up block, written twice in the source with the same text (lines 119-124 and
  132-137): both \<open>unlink\<close> calls stand in one \<open>try\<close>, so the second runs only when the
  first did not throw, and the \<open>catch\<close> drops the error.
\<close>

definition release :: "env \<Rightarrow> string \<Rightarrow> string \<Rightarrow> world \<Rightarrow> world \<times> event list" where
  "release e inp out w =
     (case unlink e inp w of
        Inl err \<Rightarrow> (w, [EvUnlink inp])
      | Inr w1 \<Rightarrow>
          (case unlink e out w1 of
             Inl err \<Rightarrow> (w1, [EvUnlink inp, EvUnlink out])
           | Inr w2 \<Rightarrow> (w2, [EvUnlink inp, EvUnlink out])))"

definition errorMessage :: "js_error \<Rightarrow> string" where
  "errorMessage err =
     or_js (stderr err) (or_js (Some (message err)) ''Unknown error during obfuscation'')"

text \<open>The outer \<open>catch\<close> (lines 131-146), entered with the error and the state at the throw.\<close>

definition catch_block ::
  "env \<Rightarrow> string \<Rightarrow> string \<Rightarrow> js_error \<Rightarrow> world \<Rightarrow> response \<times> world \<times> event list" where
  "catch_block e inp out err w =
     (case release e inp out w of
        (w', evs) \<Rightarrow> (JsonError 500 (''Obfuscation failed: '' @ errorMessage err), w', evs))"

text \<open>Lines 102-146; \<open>fileId\<close> is what \<open>randomUUID\<close> returned.\<close>

definition run_job ::
  "env \<Rightarrow> string \<Rightarrow> string \<Rightarrow> string \<Rightarrow> world \<Rightarrow> response \<times> world \<times> event list" where
  "run_job e fileId src tier w =
     (let inp = inputFile e fileId; out = outputFile e fileId in
      case writeFile e inp src w of
        Inl err \<Rightarrow>
          (case catch_block e inp out err w of
             (r, w', evs) \<Rightarrow> (r, w', [EvAllocated inp out, EvWriteFile inp] @ evs))
      | Inr w1 \<Rightarrow>
          (let cmd = command e (cachedLuaPath w1) (actualPreset tier) inp in
           case execTool e cmd w1 of
             (Some err, w2) \<Rightarrow>
               (case catch_block e inp out err w2 of
                  (r, w', evs) \<Rightarrow>
                    (r, w', [EvAllocated inp out, EvWriteFile inp, EvExec cmd] @ evs))
           | (None, w2) \<Rightarrow>
               (case readFile e out w2 of
                  Inl err \<Rightarrow>
                    (case catch_block e inp out err w2 of
                       (r, w', evs) \<Rightarrow>
                         (r, w', [EvAllocated inp out, EvWriteFile inp, EvExec cmd,
                                  EvReadFile out] @ evs))
                | Inr text \<Rightarrow>
                    (case release e inp out w2 of
                       (w3, evs) \<Rightarrow>
                         (JsonOk text tier, w3,
                          [EvAllocated inp out, EvWriteFile inp, EvExec cmd,
                           EvReadFile out] @ evs)))))"

definition handler ::
  "env \<Rightarrow> string \<Rightarrow> request_body \<Rightarrow> world \<Rightarrow> response \<times> world \<times> event list" where
  "handler e fileId b w =
     (if rejected (code b) then
        (JsonError 400 ''No code provided. Please enter Lua code to obfuscate.'', w, [])
      else
        (let tier = validatedPreset (preset_default (preset b)) in
         if \<not> truthy (cachedLuaPath w) then
           (case findLuaPath e of
              (Inl err, evs) \<Rightarrow>
                (JsonError 500 (or_js (Some (message err)) ''Lua interpreter not found.''),
                 w, EvNormalized tier # evs)
            | (Inr p, evs) \<Rightarrow>
                (case run_job e fileId (source_text (code b)) tier
                        (w\<lparr>cachedLuaPath := Some p\<rparr>) of
                   (r, w', evs') \<Rightarrow> (r, w', EvNormalized tier # evs @ evs')))
         else
           (case run_job e fileId (source_text (code b)) tier w of
              (r, w', evs') \<Rightarrow> (r, w', EvNormalized tier # evs'))))"

section \<open>Start-up (lines 61-75)\<close>

definition process_start :: "(string \<rightharpoonup> string) \<Rightarrow> bool \<Rightarrow> world" where
  "process_start fs d = \<lparr>files = fs, tempDir = d, cachedLuaPath = None\<rparr>"

text \<open>\<open>registerRoutes\<close> up to the registration of the handler: an error of
  \<open>ensureTempDir\<close> would reject the whole call, one of \<open>findLuaPath\<close> is logged.\<close>

definition registerRoutes :: "env \<Rightarrow> world \<Rightarrow> js_error + world \<times> event list" where
  "registerRoutes e w =
     (case ensureTempDir e w of
        Inl err \<Rightarrow> Inl err
      | Inr w1 \<Rightarrow>
          (case findLuaPath e of
             (Inr p, evs) \<Rightarrow> Inr (w1\<lparr>cachedLuaPath := Some p\<rparr>, evs)
           | (Inl err, evs) \<Rightarrow> Inr (w1, evs)))"

text \<open>A sequence of requests, taken one after the other, each with the surroundings and
  the identifier of its run.\<close>

fun serve :: "world \<Rightarrow> (env \<times> string \<times> request_body) list \<Rightarrow> world" where
  "serve w [] = w"
| "serve w ((e, fileId, b) # rs) = serve (fst (snd (handler e fileId b w))) rs"

section \<open>Reading a run\<close>

text \<open>The position of a call in the pipeline, and the tool command lines of a run.\<close>

fun phase :: "event \<Rightarrow> nat" where
  "phase (EvNormalized t) = 0"
| "phase (EvProbe p) = 1"
| "phase EvSearch = 1"
| "phase (EvAllocated i j) = 2"
| "phase (EvWriteFile p) = 3"
| "phase (EvExec c) = 4"
| "phase (EvReadFile p) = 5"
| "phase (EvUnlink p) = 6"

fun exec_cmds :: "event list \<Rightarrow> string list" where
  "exec_cmds [] = []"
| "exec_cmds (EvExec c # evs) = c # exec_cmds evs"
| "exec_cmds (ev # evs) = exec_cmds evs"

fun is_resolution :: "event \<Rightarrow> bool" where
  "is_resolution (EvProbe p) = True"
| "is_resolution EvSearch = True"
| "is_resolution ev = False"

text \<open>Whether the handler gets past line 100, and the cache slot as it stands there.\<close>

definition resolves :: "env \<Rightarrow> world \<Rightarrow> bool" where
  "resolves e w = (truthy (cachedLuaPath w) \<or> \<not> isl (fst (findLuaPath e)))"

definition interpreter_after :: "env \<Rightarrow> world \<Rightarrow> string option" where
  "interpreter_after e w =
     (if truthy (cachedLuaPath w) then cachedLuaPath w
      else (case fst (findLuaPath e) of Inl err \<Rightarrow> cachedLuaPath w | Inr p \<Rightarrow> Some p))"

section \<open>Sample surroundings\<close>

text \<open>
  A deployment under /app in which \<open>lua5.1\<close> answers the probe and the tool leaves
  \<open>return 1\<close> as the output of job \<open>j1\<close>; then the same with no interpreter anywhere,
  with a deletion that is refused, with a tool that leaves an empty output, and with a
  directory that cannot be created.
\<close>

definition sample_tool ::
  "string \<Rightarrow> string \<Rightarrow> (string \<rightharpoonup> string) \<Rightarrow> js_error option \<times> (string \<rightharpoonup> string)" where
  "sample_tool text cmd fs = (None, fs(''/app/temp/input_j1.obfuscated.lua'' \<mapsto> text))"

definition sample_env :: env where
  "sample_env =
     \<lparr>cwd = ''/app'',
      probe_ok = (\<lambda>p. p = ''lua5.1''),
      search_result = None,
      mkdir_fault = None,
      write_fault = (\<lambda>p content. None),
      read_fault = (\<lambda>p. None),
      unlink_fault = (\<lambda>p. None),
      tool = sample_tool ''return 1''\<rparr>"

definition sample_world :: world where
  "sample_world = \<lparr>files = Map.empty, tempDir = True, cachedLuaPath = None\<rparr>"

definition no_lua_env :: env where
  "no_lua_env = sample_env\<lparr>probe_ok := (\<lambda>p. False)\<rparr>"

definition eperm :: js_error where
  "eperm = JsError None ''EPERM: operation not permitted, unlink''"

definition locked_output_env :: env where
  "locked_output_env =
     sample_env\<lparr>unlink_fault :=
       (\<lambda>p. if p = ''/app/temp/input_j1.obfuscated.lua'' then Some eperm else None)\<rparr>"

definition locked_input_env :: env where
  "locked_input_env =
     sample_env\<lparr>unlink_fault :=
       (\<lambda>p. if p = ''/app/temp/input_j1.lua'' then Some eperm else None)\<rparr>"

definition empty_output_env :: env where
  "empty_output_env = sample_env\<lparr>tool := sample_tool []\<rparr>"

definition eacces :: js_error where
  "eacces = JsError None ''EACCES: permission denied, mkdir''"

definition readonly_env :: env where
  "readonly_env = sample_env\<lparr>mkdir_fault := Some eacces\<rparr>"

definition print_request :: "string \<Rightarrow> request_body" where
  "print_request t = \<lparr>code = Some (JStr ''print(1)''), preset = Some (JStr t)\<rparr>"

section \<open>Theorems\<close>

lemmas model_defs =
  handler_def run_job_def catch_block_def release_def unlink_def readFile_def writeFile_def
  execTool_def findLuaPath_def possiblePaths_def rejected_def falsy_def typeof_string_def
  source_text_def validatedPreset_def preset_default_def includes_js_def VALID_PRESETS_def
  truthy_def or_js_def actualPreset_def PRESET_MAP_def inputFile_def outputFile_def
  TEMP_DIR_def TOOL_DIR_def PROMETHEUS_CLI_def join_path_def command_def dq_def
  show_path_def errorMessage_def enoent_def lua_not_found_def trim_def is_space_def Let_def

lemmas sample_defs =
  sample_env_def sample_world_def sample_tool_def no_lua_env_def locked_output_env_def
  locked_input_env_def empty_output_env_def readonly_env_def print_request_def eperm_def
  eacces_def

subsection \<open>Facts about the steps\<close>

lemma validatedPreset_cases:
  "validatedPreset p = ''Weak'' \<or> validatedPreset p = ''Medium'' \<or>
   validatedPreset p = ''Strong'' \<or> validatedPreset p = ''Maximum''"
  by (cases p) (auto simp: validatedPreset_def includes_js_def VALID_PRESETS_def)

lemma paths_distinct: "inputFile e f \<noteq> outputFile e f"
proof
  assume "inputFile e f = outputFile e f"
  then have "length (inputFile e f) = length (outputFile e f)" by simp
  then show False by (simp add: inputFile_def outputFile_def join_path_def split: if_splits)
qed

lemma findLuaPath_nonempty: "findLuaPath e = (Inr p, evs) \<Longrightarrow> p \<noteq> []"
  by (auto simp: findLuaPath_def possiblePaths_def split: if_splits prod.splits option.splits)

lemma probe_loop_resolution: "probe_loop e ps = (r, evs) \<Longrightarrow> ev \<in> set evs \<Longrightarrow> is_resolution ev"
  by (induction ps arbitrary: r evs) (auto split: if_splits prod.splits)

lemma findLuaPath_resolution: "findLuaPath e = (r, evs) \<Longrightarrow> ev \<in> set evs \<Longrightarrow> is_resolution ev"
  by (auto simp: findLuaPath_def split: if_splits prod.splits option.splits dest: probe_loop_resolution)

lemma release_frame:
  "release e inp out w = (w', evs) \<Longrightarrow>
     cachedLuaPath w' = cachedLuaPath w \<and> tempDir w' = tempDir w \<and>
     (evs = [EvUnlink inp] \<or> evs = [EvUnlink inp, EvUnlink out])"
  by (auto simp: release_def unlink_def split: sum.splits option.splits)

lemma release_absent:
  "release e inp out w = (w', evs) \<Longrightarrow> unlink_fault e inp = None \<Longrightarrow> unlink_fault e out = None \<Longrightarrow>
   inp \<noteq> out \<Longrightarrow> (files w out \<noteq> None \<longrightarrow> files w inp \<noteq> None) \<Longrightarrow>
   files w' inp = None \<and> files w' out = None"
  by (auto simp: release_def unlink_def split: sum.splits option.splits)

lemma run_job_cases:
  assumes "run_job e fileId src tier w = (r, w', evs)"
  obtains
    (write_failed) err rel where
      "writeFile e (inputFile e fileId) src w = Inl err"
      "release e (inputFile e fileId) (outputFile e fileId) w = (w', rel)"
      "r = JsonError 500 (''Obfuscation failed: '' @ errorMessage err)"
      "evs = [EvAllocated (inputFile e fileId) (outputFile e fileId),
              EvWriteFile (inputFile e fileId)] @ rel"
  | (exec_failed) w1 err w2 rel where
      "writeFile e (inputFile e fileId) src w = Inr w1"
      "execTool e (command e (cachedLuaPath w1) (actualPreset tier) (inputFile e fileId)) w1
         = (Some err, w2)"
      "release e (inputFile e fileId) (outputFile e fileId) w2 = (w', rel)"
      "r = JsonError 500 (''Obfuscation failed: '' @ errorMessage err)"
      "evs = [EvAllocated (inputFile e fileId) (outputFile e fileId),
              EvWriteFile (inputFile e fileId),
              EvExec (command e (cachedLuaPath w1) (actualPreset tier) (inputFile e fileId))]
             @ rel"
  | (read_failed) w1 w2 err rel where
      "writeFile e (inputFile e fileId) src w = Inr w1"
      "execTool e (command e (cachedLuaPath w1) (actualPreset tier) (inputFile e fileId)) w1
         = (None, w2)"
      "readFile e (outputFile e fileId) w2 = Inl err"
      "release e (inputFile e fileId) (outputFile e fileId) w2 = (w', rel)"
      "r = JsonError 500 (''Obfuscation failed: '' @ errorMessage err)"
      "evs = [EvAllocated (inputFile e fileId) (outputFile e fileId),
              EvWriteFile (inputFile e fileId),
              EvExec (command e (cachedLuaPath w1) (actualPreset tier) (inputFile e fileId)),
              EvReadFile (outputFile e fileId)] @ rel"
  | (succeeded) w1 w2 obf rel where
      "writeFile e (inputFile e fileId) src w = Inr w1"
      "execTool e (command e (cachedLuaPath w1) (actualPreset tier) (inputFile e fileId)) w1
         = (None, w2)"
      "readFile e (outputFile e fileId) w2 = Inr obf"
      "release e (inputFile e fileId) (outputFile e fileId) w2 = (w', rel)"
      "r = JsonOk obf tier"
      "evs = [EvAllocated (inputFile e fileId) (outputFile e fileId),
              EvWriteFile (inputFile e fileId),
              EvExec (command e (cachedLuaPath w1) (actualPreset tier) (inputFile e fileId)),
              EvReadFile (outputFile e fileId)] @ rel"
  using assms unfolding run_job_def Let_def catch_block_def
  by (auto split: sum.splits prod.splits option.splits)

lemma writeFile_Inr:
  "writeFile e p c w = Inr w1 \<Longrightarrow>
     w1 = w\<lparr>files := (files w)(p \<mapsto> c)\<rparr> \<and> tempDir w \<and> write_fault e p c = None"
  by (auto simp: writeFile_def split: if_splits option.splits)

lemma execTool_frame:
  "execTool e cmd w1 = (x, w2) \<Longrightarrow>
     w2 = w1\<lparr>files := snd (tool e cmd (files w1))\<rparr> \<and> x = fst (tool e cmd (files w1))"
  by (auto simp: execTool_def split: prod.splits)

lemma run_job_frame:
  assumes "run_job e fileId src tier w = (r, w', evs)"
  shows "cachedLuaPath w' = cachedLuaPath w \<and> tempDir w' = tempDir w"
  using assms
  by (cases rule: run_job_cases) (auto dest!: release_frame writeFile_Inr execTool_frame)

lemma run_job_release_once:
  assumes "run_job e fileId src tier w = (r, w', evs)"
  shows "count_list evs (EvUnlink (inputFile e fileId)) = 1"
  using assms paths_distinct[of e fileId]
  by (cases rule: run_job_cases) (auto dest!: release_frame)

lemma run_job_sorted:
  assumes "run_job e fileId src tier w = (r, w', evs)"
  shows "sorted (map phase evs)"
  using assms
  by (cases rule: run_job_cases) (auto dest!: release_frame)

lemma run_job_absent:
  assumes "run_job e fileId src tier w = (r, w', evs)"
    and "files w (inputFile e fileId) = None" "files w (outputFile e fileId) = None"
    and "unlink_fault e (inputFile e fileId) = None" "unlink_fault e (outputFile e fileId) = None"
    and "\<forall>cmd fs. fs (inputFile e fileId) \<noteq> None \<longrightarrow> snd (tool e cmd fs) (inputFile e fileId) \<noteq> None"
  shows "files w' (inputFile e fileId) = None \<and> files w' (outputFile e fileId) = None"
  using assms(1)
proof (cases rule: run_job_cases)
  case (write_failed err rel)
  show ?thesis
    by (rule release_absent[OF write_failed(2) assms(4,5) paths_distinct]) (simp add: assms)
next
  case (exec_failed w1 err w2 rel)
  have "files w2 (inputFile e fileId) \<noteq> None"
    using writeFile_Inr[OF exec_failed(1)] execTool_frame[OF exec_failed(2)] assms(6) by simp
  then show ?thesis
    by (intro release_absent[OF exec_failed(3) assms(4,5) paths_distinct]) simp
next
  case (read_failed w1 w2 err rel)
  have "files w2 (inputFile e fileId) \<noteq> None"
    using writeFile_Inr[OF read_failed(1)] execTool_frame[OF read_failed(2)] assms(6) by simp
  then show ?thesis
    by (intro release_absent[OF read_failed(4) assms(4,5) paths_distinct]) simp
next
  case (succeeded w1 w2 obf rel)
  have "files w2 (inputFile e fileId) \<noteq> None"
    using writeFile_Inr[OF succeeded(1)] execTool_frame[OF succeeded(2)] assms(6) by simp
  then show ?thesis
    by (intro release_absent[OF succeeded(4) assms(4,5) paths_distinct]) simp
qed

lemma handler_cases:
  assumes "handler e fileId b w = (r, w', evs)"
  obtains
    (invalid)
      "rejected (code b)"
      "r = JsonError 400 ''No code provided. Please enter Lua code to obfuscate.''"
      "w' = w" "evs = []"
  | (not_found) err res where
      "\<not> rejected (code b)" "\<not> truthy (cachedLuaPath w)"
      "findLuaPath e = (Inl err, res)"
      "r = JsonError 500 (or_js (Some (message err)) ''Lua interpreter not found.'')"
      "w' = w"
      "evs = EvNormalized (validatedPreset (preset_default (preset b))) # res"
  | (resolved) p res job where
      "\<not> rejected (code b)" "\<not> truthy (cachedLuaPath w)"
      "findLuaPath e = (Inr p, res)"
      "run_job e fileId (source_text (code b)) (validatedPreset (preset_default (preset b)))
         (w\<lparr>cachedLuaPath := Some p\<rparr>) = (r, w', job)"
      "evs = EvNormalized (validatedPreset (preset_default (preset b))) # res @ job"
  | (cached) job where
      "\<not> rejected (code b)" "truthy (cachedLuaPath w)"
      "run_job e fileId (source_text (code b)) (validatedPreset (preset_default (preset b))) w
         = (r, w', job)"
      "evs = EvNormalized (validatedPreset (preset_default (preset b))) # job"
  using assms unfolding handler_def Let_def
  by (auto split: sum.splits prod.splits if_splits)

lemma resolution_no_unlink:
  "findLuaPath e = (x, res) \<Longrightarrow> count_list res (EvUnlink p) = 0"
  by (auto simp: count_list_0_iff dest: findLuaPath_resolution)

lemma resolution_phase: "findLuaPath e = (x, res) \<Longrightarrow> ev \<in> set res \<Longrightarrow> phase ev = 1"
  by (drule (1) findLuaPath_resolution) (cases ev; simp)

lemma run_job_phase:
  assumes "run_job e fileId src tier w = (r, w', evs)" "ev \<in> set evs"
  shows "2 \<le> phase ev"
  using assms
  by (cases rule: run_job_cases) (auto dest!: release_frame)

lemma handler_preset_cong:
  "validatedPreset (preset_default p1) = validatedPreset (preset_default p2) \<Longrightarrow>
   handler e fileId \<lparr>code = c, preset = p1\<rparr> w = handler e fileId \<lparr>code = c, preset = p2\<rparr> w"
  by (simp add: handler_def Let_def cong: prod.case_cong sum.case_cong)

subsection \<open>Tier normalisation\<close>

text \<open>
  Claim C2. Normalisation is a total function of the candidate alone. A candidate that is
  one of the four enumerated tiers is accepted unchanged. Any other candidate (a string
  outside the list, or a value that is no string) is replaced by \<open>Strong\<close>, and the
  handler then does exactly what it does for the tier \<open>Strong\<close>: same response, same
  state, same calls, so the tier value alone never makes the job fail. An absent tier
  also gives \<open>Strong\<close>. \<open>Strong\<close> is the second-strongest tier, the last but one of
  the list ordered from weakest to strongest.
\<close>

theorem C2_tier_normalization:
  "(List.member VALID_PRESETS s \<longrightarrow> validatedPreset (JStr s) = s) \<and>
   (\<not> includes_js VALID_PRESETS p \<longrightarrow>
      validatedPreset p = ''Strong'' \<and>
      handler e fileId \<lparr>code = c, preset = Some p\<rparr> w =
      handler e fileId \<lparr>code = c, preset = Some (JStr ''Strong'')\<rparr> w) \<and>
   validatedPreset (preset_default None) = ''Strong'' \<and>
   VALID_PRESETS ! (length VALID_PRESETS - 2) = ''Strong''"
  by (cases p)
    (auto simp: validatedPreset_def includes_js_def VALID_PRESETS_def preset_default_def
      intro!: handler_preset_cong)

theorem C2_tier_normalization_witness:
  "validatedPreset (JStr ''Maximum'') = ''Maximum'' \<and>
   validatedPreset (JStr ''bogus'') = ''Strong'' \<and>
   fst (handler sample_env ''j1'' (print_request ''bogus'') sample_world) =
     JsonOk ''return 1'' ''Strong''"
proof -
  have member: "List.member VALID_PRESETS ''Maximum''"
    by (simp add: VALID_PRESETS_def)
  have outside: "\<not> includes_js VALID_PRESETS (JStr ''bogus'')"
    by (simp add: includes_js_def VALID_PRESETS_def)
  have strong:
    "fst (handler sample_env ''j1'' (print_request ''Strong'') sample_world) =
       JsonOk ''return 1'' ''Strong''"
    by (simp add: model_defs sample_defs)
  note C2 = C2_tier_normalization
    [of "''Maximum''" "JStr ''bogus''" sample_env "''j1''" "Some (JStr ''print(1)'')"
      sample_world]
  from C2 member have "validatedPreset (JStr ''Maximum'') = ''Maximum''"
    by blast
  moreover from C2 outside have "validatedPreset (JStr ''bogus'') = ''Strong''"
    by blast
  moreover from C2 outside have
    "handler sample_env ''j1'' (print_request ''bogus'') sample_world =
     handler sample_env ''j1'' (print_request ''Strong'') sample_world"
    unfolding print_request_def by blast
  ultimately show ?thesis
    using strong by simp
qed

subsection \<open>The preset table\<close>

text \<open>
  Claim C3. In the table from tiers to tool presets, \<open>Strong\<close> and \<open>Maximum\<close> have the
  same preset, and the table restricted to \<open>Weak\<close> and \<open>Medium\<close> is injective: each of
  the two has a preset of its own, which is also not the preset of the two strongest.
\<close>

theorem C3_preset_table:
  "PRESET_MAP ''Strong'' = PRESET_MAP ''Maximum'' \<and>
   inj_on PRESET_MAP {''Weak'', ''Medium''} \<and>
   PRESET_MAP ''Weak'' = Some ''Weak'' \<and>
   PRESET_MAP ''Medium'' = Some ''Medium'' \<and>
   PRESET_MAP ''Maximum'' = Some ''Strong'' \<and>
   dom PRESET_MAP = set VALID_PRESETS"
  by (auto simp: PRESET_MAP_def VALID_PRESETS_def)

subsection \<open>Rejection of a missing source text\<close>

text \<open>
  Claim C4. A request whose source text is the empty string or is no string at all is
  answered at once with the failure \<open>No code provided\<close> (status 400). The state is
  returned as it was and the run makes no call at all: no path is allocated and no input
  or output file is written.
\<close>

theorem C4_invalid_input_rejected:
  assumes "c = Some (JStr []) \<or> \<not> typeof_string c"
  shows "handler e fileId \<lparr>code = c, preset = p\<rparr> w =
           (JsonError 400 ''No code provided. Please enter Lua code to obfuscate.'', w, [])"
  using assms by (auto simp: handler_def rejected_def falsy_def typeof_string_def)

theorem C4_invalid_input_rejected_witness:
  "handler sample_env ''j1'' \<lparr>code = Some (JStr []), preset = Some (JStr ''Weak'')\<rparr>
     sample_world =
     (JsonError 400 ''No code provided. Please enter Lua code to obfuscate.'',
      sample_world, []) \<and>
   handler sample_env ''j1'' \<lparr>code = Some (JNum 7), preset = None\<rparr> sample_world =
     (JsonError 400 ''No code provided. Please enter Lua code to obfuscate.'',
      sample_world, [])"
  using C4_invalid_input_rejected
      [of "Some (JStr [])" sample_env "''j1''" "Some (JStr ''Weak'')" sample_world]
    C4_invalid_input_rejected [of "Some (JNum 7)" sample_env "''j1''" None sample_world]
  by (simp add: typeof_string_def)

lemma findLuaPath_error: "findLuaPath e = (Inl err, res) \<Longrightarrow> err = lua_not_found"
  by (auto simp: findLuaPath_def split: prod.splits option.splits if_splits)

lemma handler_release_count:
  assumes "handler e fileId b w = (r, w', evs)"
  shows "count_list evs (EvUnlink (inputFile e fileId)) =
           (if \<not> rejected (code b) \<and> resolves e w then 1 else 0)"
  using assms
proof (cases rule: handler_cases)
  case invalid
  then show ?thesis by simp
next
  case (not_found err res)
  then show ?thesis
    using resolution_no_unlink[OF not_found(3)] by (simp add: resolves_def)
next
  case (resolved p res job)
  then show ?thesis
    using resolution_no_unlink[OF resolved(3)] run_job_release_once[OF resolved(4)]
    by (simp add: resolves_def)
next
  case (cached job)
  then show ?thesis
    using run_job_release_once[OF cached(3)] by (simp add: resolves_def)
qed

lemma handler_absent:
  assumes "handler e fileId b w = (r, w', evs)"
    and "files w (inputFile e fileId) = None" "files w (outputFile e fileId) = None"
    and "unlink_fault e (inputFile e fileId) = None" "unlink_fault e (outputFile e fileId) = None"
    and "\<forall>cmd fs. fs (inputFile e fileId) \<noteq> None \<longrightarrow> snd (tool e cmd fs) (inputFile e fileId) \<noteq> None"
  shows "files w' (inputFile e fileId) = None \<and> files w' (outputFile e fileId) = None"
  using assms(1)
proof (cases rule: handler_cases)
  case invalid
  then show ?thesis using assms by simp
next
  case (not_found err res)
  then show ?thesis using assms by simp
next
  case (resolved p res job)
  show ?thesis
    by (rule run_job_absent[OF resolved(4)]) (simp_all add: assms)
next
  case (cached job)
  show ?thesis
    by (rule run_job_absent[OF cached(3)]) (simp_all add: assms)
qed

subsection \<open>Release of the scratch files\<close>

text \<open>
  Claim C1, as the code has it. A job that gets as far as allocating its paths (its source
  text passed the guard and an interpreter is cached or found) runs the clean-up block
  exactly once, whatever the outcome (write failure, failed invocation, missing output,
  success). A job that is rejected for its source text, or for which no interpreter is
  found, returns before any path is allocated and runs the clean-up block not at all.
  If neither scratch path existed before the job, no deletion of the two paths is refused,
  and the tool leaves its input file in place, then both paths are absent from the
  workspace when the handler returns.
\<close>

theorem C1_release_once_no_leak:
  assumes "handler e fileId b w = (r, w', evs)"
  shows "count_list evs (EvUnlink (inputFile e fileId)) =
           (if \<not> rejected (code b) \<and> resolves e w then 1 else 0) \<and>
         (files w (inputFile e fileId) = None \<and> files w (outputFile e fileId) = None \<and>
          unlink_fault e (inputFile e fileId) = None \<and>
          unlink_fault e (outputFile e fileId) = None \<and>
          (\<forall>cmd fs. fs (inputFile e fileId) \<noteq> None \<longrightarrow>
                    snd (tool e cmd fs) (inputFile e fileId) \<noteq> None) \<longrightarrow>
          files w' (inputFile e fileId) = None \<and> files w' (outputFile e fileId) = None)"
  using handler_release_count[OF assms] handler_absent[OF assms] by blast

theorem C1_release_once_no_leak_witness:
  "count_list (snd (snd (handler sample_env ''j1'' (print_request ''Weak'') sample_world)))
     (EvUnlink ''/app/temp/input_j1.lua'') = 1 \<and>
   files (fst (snd (handler sample_env ''j1'' (print_request ''Weak'') sample_world)))
     ''/app/temp/input_j1.lua'' = None \<and>
   files (fst (snd (handler sample_env ''j1'' (print_request ''Weak'') sample_world)))
     ''/app/temp/input_j1.obfuscated.lua'' = None"
proof -
  let ?run = "handler sample_env ''j1'' (print_request ''Weak'') sample_world"
  have inp: "inputFile sample_env ''j1'' = ''/app/temp/input_j1.lua''"
    by (simp add: model_defs sample_defs)
  have out: "outputFile sample_env ''j1'' = ''/app/temp/input_j1.obfuscated.lua''"
    by (simp add: model_defs sample_defs)
  have run: "?run = (fst ?run, fst (snd ?run), snd (snd ?run))"
    by simp
  have accepted: "\<not> rejected (code (print_request ''Weak''))"
    by (simp add: model_defs sample_defs)
  have found: "resolves sample_env sample_world"
    by (simp add: resolves_def model_defs sample_defs)
  have fresh: "files sample_world ''/app/temp/input_j1.lua'' = None"
    "files sample_world ''/app/temp/input_j1.obfuscated.lua'' = None"
    by (simp_all add: sample_defs)
  have deletes: "unlink_fault sample_env ''/app/temp/input_j1.lua'' = None"
    "unlink_fault sample_env ''/app/temp/input_j1.obfuscated.lua'' = None"
    by (simp_all add: sample_defs)
  have keeps: "\<forall>cmd fs. fs ''/app/temp/input_j1.lua'' \<noteq> None \<longrightarrow>
      snd (tool sample_env cmd fs) ''/app/temp/input_j1.lua'' \<noteq> None"
    by (simp add: sample_defs)
  show ?thesis
    using C1_release_once_no_leak[OF run] accepted found fresh deletes keeps
    unfolding inp out by simp
qed

text \<open>
  The claim as written fails twice: with no interpreter the job fails and the clean-up
  block never runs, and when the deletion of the output is refused the job succeeds and
  the output file stays behind.
\<close>

theorem C1_counterexample:
  "fst (handler no_lua_env ''j1'' (print_request ''Weak'') sample_world) =
     JsonError 500 ''Lua interpreter not found. Please ensure Lua 5.1 is installed.'' \<and>
   count_list (snd (snd (handler no_lua_env ''j1'' (print_request ''Weak'') sample_world)))
     (EvUnlink (inputFile no_lua_env ''j1'')) = 0 \<and>
   fst (handler locked_output_env ''j1'' (print_request ''Weak'') sample_world) =
     JsonOk ''return 1'' ''Weak'' \<and>
   files (fst (snd (handler locked_output_env ''j1'' (print_request ''Weak'') sample_world)))
     (outputFile locked_output_env ''j1'') = Some ''return 1''"
  by (simp add: model_defs sample_defs)

lemma sorted_phase_append:
  "(\<forall>ev \<in> set xs. phase ev = 1) \<Longrightarrow> sorted (map phase ys) \<Longrightarrow> (\<forall>ev \<in> set ys. 2 \<le> phase ev) \<Longrightarrow>
   sorted (map phase (xs @ ys))"
  by (induction xs) (auto simp: sorted_append)

lemma is_resolution_phase: "is_resolution ev \<longleftrightarrow> phase ev = 1"
  by (cases ev) simp_all

lemma filter_resolution_all: "\<forall>ev \<in> set xs. is_resolution ev \<Longrightarrow> filter is_resolution xs = xs"
  by (induction xs) auto

lemma filter_resolution_none: "\<forall>ev \<in> set xs. \<not> is_resolution ev \<Longrightarrow> filter is_resolution xs = []"
  by (induction xs) auto

lemma run_job_no_resolution:
  assumes "run_job e fileId src tier w = (r, w', evs)"
  shows "filter is_resolution evs = []"
proof (rule filter_resolution_none, rule ballI)
  fix ev assume "ev \<in> set evs"
  then have "2 \<le> phase ev" by (rule run_job_phase[OF assms])
  then show "\<not> is_resolution ev" by (simp add: is_resolution_phase)
qed

lemma run_job_starts:
  assumes "run_job e fileId src tier w = (r, w', evs)"
  shows "take 2 evs = [EvAllocated (inputFile e fileId) (outputFile e fileId),
                      EvWriteFile (inputFile e fileId)]"
  using assms by (cases rule: run_job_cases) auto

lemma handler_trace_order:
  assumes "handler e fileId b w = (r, w', evs)" and "\<not> rejected (code b)"
  shows "sorted (map phase evs) \<and>
         take 1 evs = [EvNormalized (validatedPreset (preset_default (preset b)))] \<and>
         filter is_resolution evs =
           (if truthy (cachedLuaPath w) then [] else snd (findLuaPath e)) \<and>
         (resolves e w \<longrightarrow>
            take 2 (filter (\<lambda>ev. 2 \<le> phase ev) evs) =
              [EvAllocated (inputFile e fileId) (outputFile e fileId),
               EvWriteFile (inputFile e fileId)]) \<and>
         (\<not> resolves e w \<longrightarrow>
            filter (\<lambda>ev. 2 \<le> phase ev) evs = [] \<and> w' = w \<and>
            r = JsonError 500 (message lua_not_found))"
  using assms(1)
proof (cases rule: handler_cases)
  case invalid
  then show ?thesis using assms(2) by simp
next
  case (not_found err res)
  have res1: "\<forall>ev \<in> set res. phase ev = 1"
    using resolution_phase[OF not_found(3)] by blast
  then have "sorted (map phase res)"
    using sorted_phase_append[of res "[]"] by simp
  moreover have "filter is_resolution res = res"
    using res1 by (intro filter_resolution_all) (simp add: is_resolution_phase)
  moreover have "filter (\<lambda>ev. 2 \<le> phase ev) res = []"
    using res1 by (induction res) auto
  moreover have "err = lua_not_found"
    using findLuaPath_error[OF not_found(3)] .
  ultimately show ?thesis
    using not_found res1
    by (simp add: resolves_def lua_not_found_def or_js_def)
next
  case (resolved p res job)
  have res1: "\<forall>ev \<in> set res. phase ev = 1"
    using resolution_phase[OF resolved(3)] by blast
  have job2: "\<forall>ev \<in> set job. 2 \<le> phase ev"
    using run_job_phase[OF resolved(4)] by blast
  have "sorted (map phase (res @ job))"
    using sorted_phase_append[OF res1 run_job_sorted[OF resolved(4)] job2] .
  moreover have "filter is_resolution res = res"
    using res1 by (intro filter_resolution_all) (simp add: is_resolution_phase)
  moreover have "filter (\<lambda>ev. 2 \<le> phase ev) res = []"
    using res1 by (induction res) auto
  moreover have "filter (\<lambda>ev. 2 \<le> phase ev) job = job"
    using job2 by (induction job) auto
  ultimately show ?thesis
    using resolved res1 run_job_no_resolution[OF resolved(4)] run_job_starts[OF resolved(4)]
    by (simp add: resolves_def)
next
  case (cached job)
  have job2: "\<forall>ev \<in> set job. 2 \<le> phase ev"
    using run_job_phase[OF cached(3)] by blast
  have "filter (\<lambda>ev. 2 \<le> phase ev) job = job"
    using job2 by (induction job) auto
  then show ?thesis
    using cached job2 run_job_sorted[OF cached(3)] run_job_no_resolution[OF cached(3)]
      run_job_starts[OF cached(3)]
    by (simp add: resolves_def)
qed

lemma handler_cache:
  assumes "handler e fileId b w = (r, w', evs)"
  shows "cachedLuaPath w' =
           (if rejected (code b) then cachedLuaPath w else interpreter_after e w)"
  using assms
proof (cases rule: handler_cases)
  case invalid
  then show ?thesis by simp
next
  case (not_found err res)
  then show ?thesis by (simp add: interpreter_after_def)
next
  case (resolved p res job)
  then show ?thesis using run_job_frame[OF resolved(4)] by (simp add: interpreter_after_def)
next
  case (cached job)
  then show ?thesis using run_job_frame[OF cached(3)] by (simp add: interpreter_after_def)
qed

lemma interpreter_after_cached: "truthy (cachedLuaPath w) \<Longrightarrow> interpreter_after e w = cachedLuaPath w"
  by (simp add: interpreter_after_def)

lemma handler_resolution_events:
  assumes "handler e fileId b w = (r, w', evs)"
  shows "filter is_resolution evs =
           (if rejected (code b) \<or> truthy (cachedLuaPath w) then [] else snd (findLuaPath e))"
proof (cases "rejected (code b)")
  case True
  with assms show ?thesis by (cases rule: handler_cases) simp_all
next
  case False
  with handler_trace_order[OF assms False] show ?thesis by simp
qed

lemma serve_cache_kept:
  "truthy (cachedLuaPath w) \<Longrightarrow> cachedLuaPath (serve w rs) = cachedLuaPath w"
proof (induction rs arbitrary: w)
  case Nil
  then show ?case by simp
next
  case (Cons req rs)
  obtain e fileId b where req: "req = (e, fileId, b)"
    by (cases req) auto
  let ?run = "handler e fileId b w"
  have run: "?run = (fst ?run, fst (snd ?run), snd (snd ?run))"
    by simp
  have kept: "cachedLuaPath (fst (snd ?run)) = cachedLuaPath w"
    using handler_cache[OF run] Cons.prems by (simp add: interpreter_after_cached)
  then show ?case
    using Cons.IH[of "fst (snd ?run)"] Cons.prems by (simp add: req)
qed

lemma registerRoutes_cache:
  "registerRoutes e w = Inr (w1, evs) \<Longrightarrow>
     cachedLuaPath w1 = (case fst (findLuaPath e) of Inl err \<Rightarrow> cachedLuaPath w | Inr p \<Rightarrow> Some p) \<and>
     evs = snd (findLuaPath e)"
  by (auto simp: registerRoutes_def ensureTempDir_def mkdir_recursive_def
      split: sum.splits prod.splits option.splits if_splits)

lemma exec_cmds_append: "exec_cmds (xs @ ys) = exec_cmds xs @ exec_cmds ys"
  by (induction xs rule: exec_cmds.induct) auto

lemma exec_cmds_resolution: "\<forall>ev \<in> set xs. is_resolution ev \<Longrightarrow> exec_cmds xs = []"
  by (induction xs rule: exec_cmds.induct) auto

lemma exec_cmds_release: "release e inp out w = (w', rel) \<Longrightarrow> exec_cmds rel = []"
  by (auto dest!: release_frame)

lemma writeFile_cache:
  "isl (writeFile e p c (w\<lparr>cachedLuaPath := x\<rparr>)) = isl (writeFile e p c w)"
  by (simp add: writeFile_def split: option.splits)

lemma run_job_exec_cmds:
  assumes "run_job e fileId src tier w = (r, w', evs)"
  shows "exec_cmds evs =
           (if isl (writeFile e (inputFile e fileId) src w) then []
            else [command e (cachedLuaPath w) (actualPreset tier) (inputFile e fileId)])"
  using assms
  by (cases rule: run_job_cases) (auto dest!: exec_cmds_release dest: writeFile_Inr)

lemma handler_exec_cmds:
  assumes "handler e fileId b w = (r, w', evs)"
  shows "exec_cmds evs =
           (if \<not> rejected (code b) \<and> resolves e w \<and>
               \<not> isl (writeFile e (inputFile e fileId) (source_text (code b)) w)
            then [command e (interpreter_after e w)
                    (actualPreset (validatedPreset (preset_default (preset b))))
                    (inputFile e fileId)]
            else [])"
  using assms
proof (cases rule: handler_cases)
  case invalid
  then show ?thesis by simp
next
  case (not_found err res)
  then show ?thesis
    using exec_cmds_resolution[of res] findLuaPath_resolution[OF not_found(3)]
    by (auto simp: resolves_def)
next
  case (resolved p res job)
  have "exec_cmds res = []"
    using exec_cmds_resolution[of res] findLuaPath_resolution[OF resolved(3)] by auto
  then show ?thesis
    using resolved run_job_exec_cmds[OF resolved(4)]
    by (simp add: exec_cmds_append resolves_def interpreter_after_def writeFile_cache)
next
  case (cached job)
  then show ?thesis
    using run_job_exec_cmds[OF cached(3)]
    by (simp add: resolves_def interpreter_after_def)
qed

lemma run_job_ok:
  assumes "run_job e fileId src tier w = (JsonOk obf t, w', evs)"
  shows "t = tier \<and>
         fst (tool e (command e (cachedLuaPath w) (actualPreset tier) (inputFile e fileId))
                ((files w)(inputFile e fileId \<mapsto> src))) = None \<and>
         snd (tool e (command e (cachedLuaPath w) (actualPreset tier) (inputFile e fileId))
                ((files w)(inputFile e fileId \<mapsto> src))) (outputFile e fileId) = Some obf \<and>
         \<not> isl (writeFile e (inputFile e fileId) src w)"
  using assms
proof (cases rule: run_job_cases)
  case (succeeded w1 w2 obf' rel)
  then show ?thesis
    using writeFile_Inr[OF succeeded(1)] execTool_frame[OF succeeded(2)]
    by (auto simp: readFile_def split: option.splits)
qed simp_all

lemma handler_ok:
  assumes "handler e fileId b w = (JsonOk obf tier, w', evs)"
  shows "tier = validatedPreset (preset_default (preset b)) \<and> \<not> rejected (code b) \<and>
         resolves e w \<and>
         fst (tool e (command e (interpreter_after e w) (actualPreset tier) (inputFile e fileId))
                ((files w)(inputFile e fileId \<mapsto> source_text (code b)))) = None \<and>
         snd (tool e (command e (interpreter_after e w) (actualPreset tier) (inputFile e fileId))
                ((files w)(inputFile e fileId \<mapsto> source_text (code b))))
           (outputFile e fileId) = Some obf \<and>
         exec_cmds evs =
           [command e (interpreter_after e w) (actualPreset tier) (inputFile e fileId)]"
  using assms
proof (cases rule: handler_cases)
  case invalid
  then show ?thesis by simp
next
  case (not_found err res)
  then show ?thesis by simp
next
  case (resolved p res job)
  then show ?thesis
    using run_job_ok[OF resolved(4)] handler_exec_cmds[OF assms]
    by (simp add: resolves_def interpreter_after_def writeFile_cache)
next
  case (cached job)
  then show ?thesis
    using run_job_ok[OF cached(3)] handler_exec_cmds[OF assms]
    by (simp add: resolves_def interpreter_after_def)
qed

subsection \<open>The order of the steps\<close>

text \<open>
  Claim C5, as the code has it. In every job that passes the guard on the source text the
  steps occur in this order: tier normalisation, then interpreter resolution (none when
  the cache is filled, the calls of \<open>findLuaPath\<close> otherwise), then the allocation of
  the two paths and the write of the source text to the input path, then the invocation,
  the read of the output and the clean-up. When resolution fails the job ends there with
  \<open>Lua interpreter not found\<close>: no path has been allocated, nothing is written and
  nothing is released, and the state is as it was.
\<close>

theorem C5_pipeline_order:
  assumes "handler e fileId b w = (r, w', evs)" and "\<not> rejected (code b)"
  shows "sorted (map phase evs) \<and>
         take 1 evs = [EvNormalized (validatedPreset (preset_default (preset b)))] \<and>
         filter is_resolution evs =
           (if truthy (cachedLuaPath w) then [] else snd (findLuaPath e)) \<and>
         (resolves e w \<longrightarrow>
            take 2 (filter (\<lambda>ev. 2 \<le> phase ev) evs) =
              [EvAllocated (inputFile e fileId) (outputFile e fileId),
               EvWriteFile (inputFile e fileId)]) \<and>
         (\<not> resolves e w \<longrightarrow>
            filter (\<lambda>ev. 2 \<le> phase ev) evs = [] \<and> w' = w \<and>
            r = JsonError 500 (message lua_not_found))"
  using handler_trace_order[OF assms] .

theorem C5_pipeline_order_witness:
  "sorted (map phase (snd (snd (handler sample_env ''j1'' (print_request ''Weak'') sample_world)))) \<and>
   filter is_resolution (snd (snd (handler sample_env ''j1'' (print_request ''Weak'') sample_world))) =
     [EvProbe ''lua'', EvProbe ''lua5.1''] \<and>
   take 2 (filter (\<lambda>ev. 2 \<le> phase ev)
     (snd (snd (handler sample_env ''j1'' (print_request ''Weak'') sample_world)))) =
     [EvAllocated ''/app/temp/input_j1.lua'' ''/app/temp/input_j1.obfuscated.lua'',
      EvWriteFile ''/app/temp/input_j1.lua''] \<and>
   filter (\<lambda>ev. 2 \<le> phase ev)
     (snd (snd (handler no_lua_env ''j1'' (print_request ''Weak'') sample_world))) = [] \<and>
   fst (snd (handler no_lua_env ''j1'' (print_request ''Weak'') sample_world)) = sample_world"
proof -
  let ?run = "handler sample_env ''j1'' (print_request ''Weak'') sample_world"
  let ?fail = "handler no_lua_env ''j1'' (print_request ''Weak'') sample_world"
  have inp: "inputFile sample_env ''j1'' = ''/app/temp/input_j1.lua''"
    by (simp add: model_defs sample_defs)
  have out: "outputFile sample_env ''j1'' = ''/app/temp/input_j1.obfuscated.lua''"
    by (simp add: model_defs sample_defs)
  have run: "?run = (fst ?run, fst (snd ?run), snd (snd ?run))"
    by simp
  have fail: "?fail = (fst ?fail, fst (snd ?fail), snd (snd ?fail))"
    by simp
  have accepted: "\<not> rejected (code (print_request ''Weak''))"
    by (simp add: model_defs sample_defs)
  have found: "resolves sample_env sample_world"
    by (simp add: resolves_def model_defs sample_defs)
  have lost: "\<not> resolves no_lua_env sample_world"
    by (simp add: resolves_def model_defs sample_defs)
  have empty: "\<not> truthy (cachedLuaPath sample_world)"
    by (simp add: truthy_def sample_defs)
  have probes: "snd (findLuaPath sample_env) = [EvProbe ''lua'', EvProbe ''lua5.1'']"
    by (simp add: model_defs sample_defs)
  show ?thesis
    using C5_pipeline_order[OF run accepted] C5_pipeline_order[OF fail accepted]
      found lost empty probes
    unfolding inp out by simp
qed

text \<open>
  The order of the claim, allocation before resolution, is not the order of the code: with
  no interpreter the run consists of the normalisation and the four resolution calls and
  nothing else, and in a run that resolves, the two probes come before the allocation.
\<close>

theorem C5_counterexample:
  "snd (snd (handler no_lua_env ''j1'' (print_request ''Weak'') sample_world)) =
     [EvNormalized ''Weak'', EvProbe ''lua'', EvProbe ''lua5.1'',
      EvProbe ''/nix/store/mqbhz05llkddfb5wni0m48kw22ixxps4-lua-5.1.5/bin/lua'', EvSearch] \<and>
   map phase (snd (snd (handler sample_env ''j1'' (print_request ''Weak'') sample_world))) =
     [0, 1, 1, 2, 3, 4, 5, 6, 6]"
  by (simp add: model_defs sample_defs)


subsection \<open>Clean-up is best effort\<close>

text \<open>
  Claim C6 asks that a failure to delete one path does not prevent the attempt on the
  other. The code at the input where the deletion of the input file is refused: the job
  still answers with its success, the clean-up block makes one call, for the input path,
  and none for the output path, and the output file stays in the workspace. Likewise when
  the temp directory is missing: the write fails, the deletion of the input path fails
  for want of the file, and the deletion of the output path is not attempted.
\<close>

theorem C6_first_failure_skips_second:
  "fst (handler locked_input_env ''j1'' (print_request ''Weak'') sample_world) =
     JsonOk ''return 1'' ''Weak'' \<and>
   filter (\<lambda>ev. phase ev = 6)
     (snd (snd (handler locked_input_env ''j1'' (print_request ''Weak'') sample_world))) =
     [EvUnlink ''/app/temp/input_j1.lua''] \<and>
   files (fst (snd (handler locked_input_env ''j1'' (print_request ''Weak'') sample_world)))
     ''/app/temp/input_j1.obfuscated.lua'' = Some ''return 1'' \<and>
   filter (\<lambda>ev. phase ev = 6)
     (snd (snd (handler sample_env ''j1'' (print_request ''Weak'')
        (sample_world\<lparr>tempDir := False\<rparr>)))) =
     [EvUnlink ''/app/temp/input_j1.lua'']"
  by (simp add: model_defs sample_defs)

subsection \<open>The interpreter cache\<close>

text \<open>
  Claim C7. The cache slot is empty at process start. It is written on the first
  successful resolution, at start-up or in a request, with the path that \<open>findLuaPath\<close>
  returns, which is never the empty string, so the slot is filled from then on. Once
  filled it is never re-resolved: a request that finds the slot filled makes no
  resolution call and leaves the slot as it is, and so does any sequence of requests.
  Only a request that finds the slot empty retries: each such request that reaches the
  resolver (a request without a source text is rejected before any step of the pipeline)
  makes the calls of \<open>findLuaPath\<close>, once, and stores the path on success, so that
  requests retry until one succeeds.
\<close>

theorem C7_cache_lifecycle:
  "cachedLuaPath (process_start fs d) = None \<and>
   (registerRoutes e w = Inr (w1, evs1) \<longrightarrow>
      cachedLuaPath w1 =
        (case fst (findLuaPath e) of Inl err \<Rightarrow> cachedLuaPath w | Inr p \<Rightarrow> Some p)) \<and>
   (fst (findLuaPath e) = Inr p \<longrightarrow> truthy (Some p)) \<and>
   (handler e fileId b w = (r, w', evs) \<longrightarrow>
      (truthy (cachedLuaPath w) \<longrightarrow>
         cachedLuaPath w' = cachedLuaPath w \<and> filter is_resolution evs = []) \<and>
      (\<not> truthy (cachedLuaPath w) \<and> \<not> rejected (code b) \<longrightarrow>
         filter is_resolution evs = snd (findLuaPath e) \<and>
         cachedLuaPath w' =
           (case fst (findLuaPath e) of Inl err \<Rightarrow> cachedLuaPath w | Inr p \<Rightarrow> Some p)) \<and>
      (\<not> truthy (cachedLuaPath w) \<and> rejected (code b) \<longrightarrow>
         filter is_resolution evs = [] \<and> cachedLuaPath w' = cachedLuaPath w)) \<and>
   (truthy (cachedLuaPath w) \<longrightarrow> cachedLuaPath (serve w rs) = cachedLuaPath w)"
proof -
  have start: "cachedLuaPath (process_start fs d) = None"
    by (simp add: process_start_def)
  have found: "fst (findLuaPath e) = Inr p \<longrightarrow> truthy (Some p)"
    using findLuaPath_nonempty[of e p "snd (findLuaPath e)"]
    by (auto simp: truthy_def) (metis prod.collapse)
  have request: "handler e fileId b w = (r, w', evs) \<longrightarrow>
      (truthy (cachedLuaPath w) \<longrightarrow>
         cachedLuaPath w' = cachedLuaPath w \<and> filter is_resolution evs = []) \<and>
      (\<not> truthy (cachedLuaPath w) \<and> \<not> rejected (code b) \<longrightarrow>
         filter is_resolution evs = snd (findLuaPath e) \<and>
         cachedLuaPath w' =
           (case fst (findLuaPath e) of Inl err \<Rightarrow> cachedLuaPath w | Inr p \<Rightarrow> Some p)) \<and>
      (\<not> truthy (cachedLuaPath w) \<and> rejected (code b) \<longrightarrow>
         filter is_resolution evs = [] \<and> cachedLuaPath w' = cachedLuaPath w)"
  proof
    assume run: "handler e fileId b w = (r, w', evs)"
    show "(truthy (cachedLuaPath w) \<longrightarrow>
         cachedLuaPath w' = cachedLuaPath w \<and> filter is_resolution evs = []) \<and>
      (\<not> truthy (cachedLuaPath w) \<and> \<not> rejected (code b) \<longrightarrow>
         filter is_resolution evs = snd (findLuaPath e) \<and>
         cachedLuaPath w' =
           (case fst (findLuaPath e) of Inl err \<Rightarrow> cachedLuaPath w | Inr p \<Rightarrow> Some p)) \<and>
      (\<not> truthy (cachedLuaPath w) \<and> rejected (code b) \<longrightarrow>
         filter is_resolution evs = [] \<and> cachedLuaPath w' = cachedLuaPath w)"
      using handler_cache[OF run] handler_resolution_events[OF run]
      by (auto simp: interpreter_after_def)
  qed
  show ?thesis
    using start found request registerRoutes_cache[of e w w1 evs1] serve_cache_kept[of w rs]
    by blast
qed

theorem C7_cache_lifecycle_witness:
  "cachedLuaPath (fst (projr (registerRoutes sample_env (process_start Map.empty False)))) =
     Some ''lua5.1'' \<and>
   cachedLuaPath (fst (snd (handler sample_env ''j1'' (print_request ''Weak'') sample_world))) =
     Some ''lua5.1'' \<and>
   filter is_resolution
     (snd (snd (handler sample_env ''j1'' (print_request ''Weak'') sample_world))) =
     [EvProbe ''lua'', EvProbe ''lua5.1''] \<and>
   filter is_resolution
     (snd (snd (handler no_lua_env ''j1'' (print_request ''Weak'')
        (sample_world\<lparr>cachedLuaPath := Some ''lua5.1''\<rparr>)))) = [] \<and>
   cachedLuaPath (serve (sample_world\<lparr>cachedLuaPath := Some ''lua5.1''\<rparr>)
     [(no_lua_env, ''j1'', print_request ''Weak''), (sample_env, ''j2'', print_request ''bogus'')]) =
     Some ''lua5.1''"
proof -
  let ?start = "registerRoutes sample_env (process_start Map.empty False)"
  let ?run = "handler sample_env ''j1'' (print_request ''Weak'') sample_world"
  let ?warm = "sample_world\<lparr>cachedLuaPath := Some ''lua5.1''\<rparr>"
  let ?next = "handler no_lua_env ''j1'' (print_request ''Weak'') ?warm"
  have start: "?start = Inr (fst (projr ?start), snd (projr ?start))"
    by (simp add: registerRoutes_def ensureTempDir_def mkdir_recursive_def process_start_def
        model_defs sample_defs)
  have run: "?run = (fst ?run, fst (snd ?run), snd (snd ?run))"
    by simp
  have nxt: "?next = (fst ?next, fst (snd ?next), snd (snd ?next))"
    by simp
  have found: "findLuaPath sample_env = (Inr ''lua5.1'', [EvProbe ''lua'', EvProbe ''lua5.1''])"
    by (simp add: model_defs sample_defs)
  have empty: "\<not> truthy (cachedLuaPath sample_world)"
    by (simp add: truthy_def sample_defs)
  have warm: "truthy (cachedLuaPath ?warm)"
    by (simp add: truthy_def)
  have accepted: "\<not> rejected (code (print_request ''Weak''))"
    by (simp add: model_defs sample_defs)
  have c0: "cachedLuaPath (process_start Map.empty False) = None"
    by (simp add: process_start_def)
  note a = C7_cache_lifecycle[where e = sample_env and w = "process_start Map.empty False"
      and ?w1.0 = "fst (projr ?start)" and ?evs1.0 = "snd (projr ?start)"]
  note b = C7_cache_lifecycle[where e = sample_env and w = sample_world and fileId = "''j1''"
      and b = "print_request ''Weak''" and r = "fst ?run" and w' = "fst (snd ?run)"
      and evs = "snd (snd ?run)"]
  note c = C7_cache_lifecycle[where e = no_lua_env and w = ?warm and fileId = "''j1''"
      and b = "print_request ''Weak''" and r = "fst ?next" and w' = "fst (snd ?next)"
      and evs = "snd (snd ?next)"
      and rs = "[(no_lua_env, ''j1'', print_request ''Weak''),
                 (sample_env, ''j2'', print_request ''bogus'')]"]
  have "cachedLuaPath (fst (projr ?start)) = Some ''lua5.1''"
    using a start found c0 by simp
  moreover have "cachedLuaPath (fst (snd ?run)) = Some ''lua5.1''"
    using b run found empty accepted by simp
  moreover have "filter is_resolution (snd (snd ?run)) = [EvProbe ''lua'', EvProbe ''lua5.1'']"
    using b run found empty accepted by simp
  moreover have "filter is_resolution (snd (snd ?next)) = []"
    using c nxt warm by simp
  moreover have "cachedLuaPath (serve ?warm
     [(no_lua_env, ''j1'', print_request ''Weak''), (sample_env, ''j2'', print_request ''bogus'')]) =
     Some ''lua5.1''"
    using c warm by simp
  ultimately show ?thesis by simp
qed

subsection \<open>Creation of the temp directory\<close>

text \<open>
  What \<open>ensureTempDir\<close> does in every state and surroundings: it returns normally. An
  existing directory is left as it is, a missing one is created when \<open>mkdir\<close> succeeds,
  and whatever \<open>mkdir\<close> throws is dropped with the state as it was. A second run
  changes nothing.
\<close>

lemma ensureTempDir_drops_every_error:
  "\<not> isl (ensureTempDir e w) \<and>
   (tempDir w \<longrightarrow> ensureTempDir e w = Inr w) \<and>
   (\<not> tempDir w \<and> mkdir_fault e = None \<longrightarrow> ensureTempDir e w = Inr (w\<lparr>tempDir := True\<rparr>)) \<and>
   (\<not> tempDir w \<and> mkdir_fault e \<noteq> None \<longrightarrow> ensureTempDir e w = Inr w) \<and>
   (case ensureTempDir e w of Inl err \<Rightarrow> False | Inr w1 \<Rightarrow> ensureTempDir e w1 = Inr w1)"
  by (auto simp: ensureTempDir_def mkdir_recursive_def split: sum.splits option.splits)

text \<open>
  Claim C8 asks that \<open>ensureTempDir\<close> treat an existing directory as success and fail
  exactly when directory creation meets an unrelated error. The code at the input where
  the directory is missing and \<open>mkdir\<close> is denied permission: \<open>mkdir\<close> throws,
  \<open>ensureTempDir\<close> returns normally all the same, the directory is still missing, and
  the next job, with an interpreter at hand, fails at its write for want of the
  directory.
\<close>

theorem C8_unrelated_error_swallowed:
  "mkdir_recursive readonly_env (process_start Map.empty False) = Inl eacces \<and>
   \<not> isl (ensureTempDir readonly_env (process_start Map.empty False)) \<and>
   \<not> tempDir (projr (ensureTempDir readonly_env (process_start Map.empty False))) \<and>
   fst (handler readonly_env ''j1'' (print_request ''Weak'')
          (projr (ensureTempDir readonly_env (process_start Map.empty False)))) =
     JsonError 500
       (''Obfuscation failed: '' @ message (enoent ''open'' ''/app/temp/input_j1.lua''))"
  by (simp add: ensureTempDir_def mkdir_recursive_def process_start_def model_defs sample_defs)

subsection \<open>The success result\<close>

text \<open>
  Claim C9, as the code has it. A successful run returns the text that the tool left at
  the output path, whatever its length, after an invocation that reported no error,
  together with the tier used. That tier is the normalised caller-facing tier, one of the
  four, and not the tool's preset: a successful \<open>Maximum\<close> job reports \<open>Maximum\<close>
  while the tool was run with \<open>Strong\<close>.
\<close>

theorem C9_success_result:
  assumes "handler e fileId b w = (JsonOk obf tier, w', evs)"
  shows "tier = validatedPreset (preset_default (preset b)) \<and>
         List.member VALID_PRESETS tier \<and>
         (preset b = Some (JStr ''Maximum'') \<longrightarrow>
            tier = ''Maximum'' \<and> actualPreset tier = ''Strong'') \<and>
         fst (tool e (command e (interpreter_after e w) (actualPreset tier) (inputFile e fileId))
                ((files w)(inputFile e fileId \<mapsto> source_text (code b)))) = None \<and>
         snd (tool e (command e (interpreter_after e w) (actualPreset tier) (inputFile e fileId))
                ((files w)(inputFile e fileId \<mapsto> source_text (code b))))
           (outputFile e fileId) = Some obf"
proof -
  have member: "List.member VALID_PRESETS (validatedPreset p)" for p
    using validatedPreset_cases[of p] by (auto simp: VALID_PRESETS_def)
  have maximum: "validatedPreset (preset_default (Some (JStr ''Maximum''))) = ''Maximum''"
    "actualPreset ''Maximum'' = ''Strong''"
    by (simp_all add: model_defs)
  show ?thesis
    using handler_ok[OF assms] member maximum by auto
qed

theorem C9_success_result_witness:
  "fst (handler sample_env ''j1'' (print_request ''Maximum'') sample_world) =
     JsonOk ''return 1'' ''Maximum'' \<and>
   actualPreset ''Maximum'' = ''Strong'' \<and>
   snd (tool sample_env
          (command sample_env (Some ''lua5.1'') ''Strong'' ''/app/temp/input_j1.lua'')
          [''/app/temp/input_j1.lua'' \<mapsto> ''print(1)''])
     ''/app/temp/input_j1.obfuscated.lua'' = Some ''return 1''"
proof -
  let ?run = "handler sample_env ''j1'' (print_request ''Maximum'') sample_world"
  have ok: "fst ?run = JsonOk ''return 1'' ''Maximum''"
    by (simp add: model_defs sample_defs)
  have run: "?run = (JsonOk ''return 1'' ''Maximum'', fst (snd ?run), snd (snd ?run))"
    using ok by (metis prod.collapse)
  have inp: "inputFile sample_env ''j1'' = ''/app/temp/input_j1.lua''"
    by (simp add: model_defs sample_defs)
  have out: "outputFile sample_env ''j1'' = ''/app/temp/input_j1.obfuscated.lua''"
    by (simp add: model_defs sample_defs)
  have lua: "interpreter_after sample_env sample_world = Some ''lua5.1''"
    by (simp add: interpreter_after_def model_defs sample_defs)
  have src: "source_text (code (print_request ''Maximum'')) = ''print(1)''"
    "preset (print_request ''Maximum'') = Some (JStr ''Maximum'')"
    "files sample_world = Map.empty"
    "validatedPreset (preset_default (Some (JStr ''Maximum''))) = ''Maximum''"
    "actualPreset ''Maximum'' = ''Strong''"
    by (simp_all add: model_defs sample_defs)
  show ?thesis
    using C9_success_result[OF run] ok unfolding inp out lua src by simp
qed

text \<open>
  The text of a success may be empty: the handler does not look at what it read.
\<close>

theorem C9_counterexample:
  "fst (handler empty_output_env ''j1'' (print_request ''Maximum'') sample_world) =
     JsonOk [] ''Maximum''"
  by (simp add: model_defs sample_defs)

subsection \<open>The command line does not depend on the source text\<close>

text \<open>
  Claim C10. Two requests with the same job identifier, in the same state and
  surroundings (hence the same interpreter path), whose tiers normalise to the same tier:
  each run executes at most one tool command, and it is the command built from the
  working directory, the interpreter path, the preset and the input path, in which the
  source text does not occur as an argument. The preset in it is the entry of the fixed
  table for the normalised tier. So whenever both runs reach the invocation they execute
  the same command string, whatever the two source texts are; the source text decides
  only whether the run gets that far (the guard and the write).
\<close>

theorem C10_command_independent_of_source:
  assumes "handler e fileId \<lparr>code = c1, preset = p1\<rparr> w = (r1, w1, evs1)"
    and "handler e fileId \<lparr>code = c2, preset = p2\<rparr> w = (r2, w2, evs2)"
    and "validatedPreset (preset_default p1) = validatedPreset (preset_default p2)"
  shows "PRESET_MAP (validatedPreset (preset_default p1)) =
           Some (actualPreset (validatedPreset (preset_default p1))) \<and>
         exec_cmds evs1 =
           (if \<not> rejected c1 \<and> resolves e w \<and>
               \<not> isl (writeFile e (inputFile e fileId) (source_text c1) w)
            then [command e (interpreter_after e w)
                    (actualPreset (validatedPreset (preset_default p1))) (inputFile e fileId)]
            else []) \<and>
         exec_cmds evs2 =
           (if \<not> rejected c2 \<and> resolves e w \<and>
               \<not> isl (writeFile e (inputFile e fileId) (source_text c2) w)
            then [command e (interpreter_after e w)
                    (actualPreset (validatedPreset (preset_default p1))) (inputFile e fileId)]
            else []) \<and>
         (exec_cmds evs1 \<noteq> [] \<and> exec_cmds evs2 \<noteq> [] \<longrightarrow> exec_cmds evs1 = exec_cmds evs2)"
proof -
  have table: "PRESET_MAP (validatedPreset p) = Some (actualPreset (validatedPreset p))" for p
    using validatedPreset_cases[of p] by (auto simp: PRESET_MAP_def actualPreset_def or_js_def)
  show ?thesis
    using handler_exec_cmds[OF assms(1)] handler_exec_cmds[OF assms(2)] assms(3) table
    by simp
qed

theorem C10_command_independent_of_source_witness:
  "exec_cmds (snd (snd (handler sample_env ''j1''
      \<lparr>code = Some (JStr ''print(1)''), preset = None\<rparr> sample_world))) =
     [command sample_env (Some ''lua5.1'') ''Strong'' ''/app/temp/input_j1.lua''] \<and>
   exec_cmds (snd (snd (handler sample_env ''j1''
      \<lparr>code = Some (JStr ''os.exit(2)''), preset = Some (JStr ''bogus'')\<rparr> sample_world))) =
     [command sample_env (Some ''lua5.1'') ''Strong'' ''/app/temp/input_j1.lua''] \<and>
   PRESET_MAP ''Strong'' = Some ''Strong''"
proof -
  let ?a = "handler sample_env ''j1'' \<lparr>code = Some (JStr ''print(1)''), preset = None\<rparr> sample_world"
  let ?b = "handler sample_env ''j1''
      \<lparr>code = Some (JStr ''os.exit(2)''), preset = Some (JStr ''bogus'')\<rparr> sample_world"
  have a: "?a = (fst ?a, fst (snd ?a), snd (snd ?a))" by simp
  have b: "?b = (fst ?b, fst (snd ?b), snd (snd ?b))" by simp
  have same: "validatedPreset (preset_default None) =
      validatedPreset (preset_default (Some (JStr ''bogus'')))"
    by (simp add: model_defs)
  have strong: "validatedPreset (preset_default None) = ''Strong''"
    "actualPreset ''Strong'' = ''Strong''"
    by (simp_all add: model_defs)
  have inp: "inputFile sample_env ''j1'' = ''/app/temp/input_j1.lua''"
    by (simp add: model_defs sample_defs)
  have lua: "interpreter_after sample_env sample_world = Some ''lua5.1''"
    by (simp add: interpreter_after_def model_defs sample_defs)
  have found: "resolves sample_env sample_world"
    by (simp add: resolves_def model_defs sample_defs)
  have accepted: "\<not> rejected (Some (JStr ''print(1)''))" "\<not> rejected (Some (JStr ''os.exit(2)''))"
    by (simp_all add: model_defs)
  have written: "\<not> isl (writeFile sample_env ''/app/temp/input_j1.lua'' s sample_world)" for s
    by (simp add: writeFile_def sample_defs)
  show ?thesis
    using C10_command_independent_of_source[OF a b same] found accepted written
    unfolding strong inp lua by simp
qed

end
